theory Spec2Isabelle
  imports Main "HOL-Library.AList"
begin

section \<open>Values, dictionaries and exceptions\<close>

text \<open>
  The backend (\<^verbatim>\<open>main.py\<close>) moves Python values between form fields, JSON bodies, token
  payloads and stored documents. \<open>jval\<close> is the part of that value space the handlers
  touch; a \<^verbatim>\<open>datetime\<close> is its number of whole seconds since the epoch, a
  \<^verbatim>\<open>timedelta\<close> a number of seconds. A Python \<^verbatim>\<open>dict\<close> with string keys is an
  association list in insertion order.
\<close>

datatype jval = JNull | JBool bool | JInt int | JStr string | JDate int | JList "jval list"

type_synonym doc = "(string \<times> jval) list"

text \<open>Python truth value of a value (\<^verbatim>\<open>not email\<close>) and of a looked-up document
  (\<^verbatim>\<open>not user\<close>: \<^verbatim>\<open>None\<close> and the empty dict are both false).\<close>

fun truthy :: "jval \<Rightarrow> bool" where
  "truthy JNull = False"
| "truthy (JBool b) = b"
| "truthy (JInt n) = (n \<noteq> 0)"
| "truthy (JStr s) = (s \<noteq> [])"
| "truthy (JDate t) = True"
| "truthy (JList xs) = (xs \<noteq> [])"

fun doc_truthy :: "doc option \<Rightarrow> bool" where
  "doc_truthy None = False"
| "doc_truthy (Some d) = (d \<noteq> [])"

text \<open>\<^verbatim>\<open>d.get(k)\<close> and \<^verbatim>\<open>d.get(k, default)\<close>.\<close>

definition dict_get :: "doc \<Rightarrow> string \<Rightarrow> jval" where
  "dict_get d k = (case map_of d k of None \<Rightarrow> JNull | Some v \<Rightarrow> v)"

definition dict_get_default :: "doc \<Rightarrow> string \<Rightarrow> jval \<Rightarrow> jval" where
  "dict_get_default d k dflt = (case map_of d k of None \<Rightarrow> dflt | Some v \<Rightarrow> v)"

datatype HTTPException = HTTPException (status_code: nat) (detail: string)

datatype py_exception =
    ExpiredSignatureError
  | DecodeError
  | InvalidSignatureError
  | InvalidAlgorithmError
  | UnknownHashError
  | TypeError
  | KeyError string
  | StoreError
  | ValidationError
  | HTTPError HTTPException

text \<open>An exception that no handler catches leaves the framework as a plain 500 response.\<close>

definition unhandled :: HTTPException where
  "unhandled = HTTPException 500 ''Internal Server Error''"

section \<open>Configuration constants\<close>

text \<open>\<^verbatim>\<open>JWT_SECRET = os.getenv("JWT_SECRET", "devsecret")\<close>: the argument is the value of the
  environment variable, if set.\<close>

definition JWT_SECRET :: "string option \<Rightarrow> string" where
  "JWT_SECRET env = (case env of None \<Rightarrow> ''devsecret'' | Some s \<Rightarrow> s)"

definition JWT_ALGO :: string where
  "JWT_ALGO = ''HS256''"

definition TOKEN_EXPIRE_MINUTES :: int where
  "TOKEN_EXPIRE_MINUTES = 60 * 24"

section \<open>The token library\<close>

text \<open>
  \<^verbatim>\<open>jwt.encode\<close> and \<^verbatim>\<open>jwt.decode\<close> belong to the PyJWT package, which the program imports.
  They are modelled symbolically, in the manner of the shared-key protocol models: a bearer
  string is either some text that does not parse as a token, or a token that records the
  algorithm of its header, the key its signature was made with, and its claims. Signatures
  cannot be forged: a token verifies under a key exactly when it was signed with that key.

  Encoding turns a \<^verbatim>\<open>datetime\<close> in one of the time claims into a whole number of seconds.
  Decoding checks, in this order, the shape, the algorithm of the header against the allowed
  list, the signature, and the \<^verbatim>\<open>exp\<close> claim against the clock: a token whose \<^verbatim>\<open>exp\<close> is not
  in the future is expired. The checks of PyJWT on claims that this program never issues
  (\<^verbatim>\<open>nbf\<close>, \<^verbatim>\<open>iat\<close>, \<^verbatim>\<open>aud\<close>, \<^verbatim>\<open>iss\<close>) are left out. The clock is an argument, in whole
  seconds.
\<close>

datatype token = Opaque string | JWT string string doc

fun numeric_date :: "jval \<Rightarrow> jval" where
  "numeric_date (JDate t) = JInt t"
| "numeric_date v = v"

definition jwt_encode :: "doc \<Rightarrow> string \<Rightarrow> string \<Rightarrow> token" where
  "jwt_encode payload key alg =
     JWT alg key
       (map (\<lambda>(k, v). if k \<in> set [''exp'', ''iat'', ''nbf''] then (k, numeric_date v) else (k, v))
            payload)"

definition jwt_decode :: "token \<Rightarrow> string \<Rightarrow> string list \<Rightarrow> int \<Rightarrow> py_exception + doc" where
  "jwt_decode tok key algorithms now =
     (case tok of
        Opaque _ \<Rightarrow> Inl DecodeError
      | JWT alg k claims \<Rightarrow>
          if alg \<notin> set algorithms then Inl InvalidAlgorithmError
          else if k \<noteq> key then Inl InvalidSignatureError
          else (case map_of claims ''exp'' of
                  None \<Rightarrow> Inr claims
                | Some (JInt exp) \<Rightarrow> if exp \<le> now then Inl ExpiredSignatureError else Inr claims
                | Some _ \<Rightarrow> Inl DecodeError))"

section \<open>The password library\<close>

text \<open>
  \<^verbatim>\<open>pwd_context = CryptContext(schemes=["bcrypt"], deprecated="auto")\<close> is an object of the
  passlib package. The program uses two of its methods: \<^verbatim>\<open>hash\<close>, and \<^verbatim>\<open>verify\<close>, which like
  every call may return or raise. The context is a parameter of the model; nothing is
  assumed about it in the definitions.
\<close>

record crypt_context =
  ctx_hash :: "string \<Rightarrow> string"
  ctx_verify :: "string \<Rightarrow> jval \<Rightarrow> py_exception + bool"

definition hash_password :: "crypt_context \<Rightarrow> string \<Rightarrow> string" where
  "hash_password pwd_context password = ctx_hash pwd_context password"

definition verify_password :: "crypt_context \<Rightarrow> string \<Rightarrow> jval \<Rightarrow> py_exception + bool" where
  "verify_password pwd_context password hashed = ctx_verify pwd_context password hashed"

text \<open>
  An executable context that follows passlib on what it recognises: \<^verbatim>\<open>verify\<close> answers
  \<^verbatim>\<open>False\<close> for the hash \<^verbatim>\<open>None\<close>, raises \<^verbatim>\<open>UnknownHashError\<close> for a string that no
  configured scheme identifies (bcrypt identifies a hash by its \<^verbatim>\<open>$2b$\<close>-style prefix, which
  the empty string lacks), and rejects a hash that is not a string. The digest itself is
  the identity, which is enough to run the handlers on concrete inputs.
\<close>

definition bcrypt_ident :: string where
  "bcrypt_ident = ''$2b$''"

definition plain_context :: crypt_context where
  "plain_context =
     \<lparr> ctx_hash = (\<lambda>password. bcrypt_ident @ password),
       ctx_verify = (\<lambda>secret hash.
          case hash of
            JNull \<Rightarrow> Inr False
          | JStr h \<Rightarrow> if take 4 h = bcrypt_ident then Inr (h = bcrypt_ident @ secret)
                      else Inl UnknownHashError
          | _ \<Rightarrow> Inl TypeError) \<rparr>"

section \<open>Token issue\<close>

text \<open>
  \<^verbatim>\<open>create_token(data, expires_delta=None)\<close>. The secret and the reading of the clock
  (\<^verbatim>\<open>datetime.utcnow()\<close>) are arguments. \<^verbatim>\<open>expires_delta or timedelta(...)\<close> takes the default
  for \<^verbatim>\<open>None\<close> and also for a zero delta, which is false in Python.
\<close>

definition create_token :: "string \<Rightarrow> int \<Rightarrow> doc \<Rightarrow> int option \<Rightarrow> token" where
  "create_token secret now data expires_delta =
     (let to_encode = data;
          expire = now + (case expires_delta of
                            None \<Rightarrow> 60 * TOKEN_EXPIRE_MINUTES
                          | Some d \<Rightarrow> if d = 0 then 60 * TOKEN_EXPIRE_MINUTES else d);
          to_encode = AList.update ''exp'' (JDate expire) to_encode
      in jwt_encode to_encode secret JWT_ALGO)"

record Token =
  access_token :: token
  token_type :: string

definition mk_Token :: "token \<Rightarrow> Token" where
  "mk_Token t = \<lparr> access_token = t, token_type = ''bearer'' \<rparr>"

section \<open>The document store\<close>

text \<open>
  \<^verbatim>\<open>main.py\<close> imports \<^verbatim>\<open>db\<close>, \<^verbatim>\<open>create_document\<close> and \<^verbatim>\<open>get_documents\<close> from the module
  \<^verbatim>\<open>database\<close>, which is not among the sources. A store maps the name of a collection to its
  documents in insertion order. The handle \<open>db\<close> is \<open>None\<close> when the store is not
  configured, and \<^verbatim>\<open>not db\<close> tests exactly that.
\<close>

type_synonym store = "string \<Rightarrow> doc list"

text \<open>
  Modelled from the spec: the filter of a point lookup on the absent store. A document
  matches a query when it holds every field of the query with the queried value.
\<close>

definition matches :: "doc \<Rightarrow> doc \<Rightarrow> bool" where
  "matches query d = list_all (\<lambda>(k, v). map_of d k = Some v) query"

text \<open>
  Modelled from the spec: \<^verbatim>\<open>db.<collection>.find_one(query)\<close> of the absent store handle,
  the point lookup the spec requires of the store: the first matching document of the
  collection, if there is one.
\<close>

definition find_one :: "store \<Rightarrow> string \<Rightarrow> doc \<Rightarrow> doc option" where
  "find_one s collection query = find (matches query) (s collection)"

text \<open>
  Modelled from the spec: \<^verbatim>\<open>create_document\<close> of the absent module \<^verbatim>\<open>database\<close>, the insert
  the spec requires of the store. The record is added to the named collection; the
  identifier assigned on insert is not modelled. Without a store the operation fails, and
  the failure propagates to the caller.
\<close>

definition create_document :: "store option \<Rightarrow> string \<Rightarrow> doc \<Rightarrow> py_exception + store" where
  "create_document db collection data =
     (case db of
        None \<Rightarrow> Inl StoreError
      | Some s \<Rightarrow> Inr (s(collection := s collection @ [data])))"

text \<open>
  Modelled from the spec: \<^verbatim>\<open>get_documents\<close> of the absent module \<^verbatim>\<open>database\<close>: all records of
  the named collection, with no filter and no limit, in the store's order.
\<close>

definition get_documents :: "store option \<Rightarrow> string \<Rightarrow> py_exception + doc list" where
  "get_documents db collection =
     (case db of None \<Rightarrow> Inl StoreError | Some s \<Rightarrow> Inr (s collection))"

section \<open>Schemas\<close>

text \<open>
  The pydantic models of \<^verbatim>\<open>schemas.py\<close> that the handlers build or receive, each with the
  dictionary of its fields as it is handed to the store. Field names carry the class name,
  since several classes share \<^verbatim>\<open>name\<close>, \<^verbatim>\<open>email\<close> and \<^verbatim>\<open>status\<close>.
\<close>

fun opt_str :: "string option \<Rightarrow> jval" where
  "opt_str None = JNull"
| "opt_str (Some s) = JStr s"

fun opt_date :: "int option \<Rightarrow> jval" where
  "opt_date None = JNull"
| "opt_date (Some t) = JDate t"

record User =
  User_name :: string
  User_email :: string
  User_phone :: "string option"
  User_password_hash :: "string option"
  User_role :: string
  User_is_verified :: bool

definition User_dump :: "User \<Rightarrow> doc" where
  "User_dump u =
     [(''name'', JStr (User_name u)), (''email'', JStr (User_email u)),
      (''phone'', opt_str (User_phone u)),
      (''password_hash'', opt_str (User_password_hash u)),
      (''role'', JStr (User_role u)), (''is_verified'', JBool (User_is_verified u))]"

record OTPRequest =
  OTPRequest_channel :: string
  OTPRequest_target :: string
  OTPRequest_code :: string
  OTPRequest_purpose :: string
  OTPRequest_expires_at :: int
  OTPRequest_verified :: bool

definition OTPRequest_dump :: "OTPRequest \<Rightarrow> doc" where
  "OTPRequest_dump r =
     [(''channel'', JStr (OTPRequest_channel r)), (''target'', JStr (OTPRequest_target r)),
      (''code'', JStr (OTPRequest_code r)), (''purpose'', JStr (OTPRequest_purpose r)),
      (''expires_at'', JDate (OTPRequest_expires_at r)),
      (''verified'', JBool (OTPRequest_verified r))]"

record Lead =
  Lead_name :: string
  Lead_email :: string
  Lead_phone :: "string option"
  Lead_source :: "string option"
  Lead_message :: "string option"
  Lead_status :: string

definition Lead_dump :: "Lead \<Rightarrow> doc" where
  "Lead_dump l =
     [(''name'', JStr (Lead_name l)), (''email'', JStr (Lead_email l)),
      (''phone'', opt_str (Lead_phone l)), (''source'', opt_str (Lead_source l)),
      (''message'', opt_str (Lead_message l)), (''status'', JStr (Lead_status l))]"

record Appointment =
  Appointment_user_email :: "string option"
  Appointment_name :: string
  Appointment_phone :: "string option"
  Appointment_package_id :: "string option"
  Appointment_date :: string
  Appointment_time :: string
  Appointment_notes :: "string option"
  Appointment_status :: string

definition Appointment_dump :: "Appointment \<Rightarrow> doc" where
  "Appointment_dump a =
     [(''user_email'', opt_str (Appointment_user_email a)), (''name'', JStr (Appointment_name a)),
      (''phone'', opt_str (Appointment_phone a)),
      (''package_id'', opt_str (Appointment_package_id a)),
      (''date'', JStr (Appointment_date a)), (''time'', JStr (Appointment_time a)),
      (''notes'', opt_str (Appointment_notes a)), (''status'', JStr (Appointment_status a))]"

record Package =
  Package_slug :: string
  Package_title :: string
  Package_description :: string
  Package_features :: "string list"
  Package_price_inr :: int
  Package_is_popular :: bool

definition Package_dump :: "Package \<Rightarrow> doc" where
  "Package_dump p =
     [(''slug'', JStr (Package_slug p)), (''title'', JStr (Package_title p)),
      (''description'', JStr (Package_description p)),
      (''features'', JList (map JStr (Package_features p))),
      (''price_inr'', JInt (Package_price_inr p)),
      (''is_popular'', JBool (Package_is_popular p))]"

record BlogPost =
  BlogPost_title :: string
  BlogPost_slug :: string
  BlogPost_excerpt :: "string option"
  BlogPost_content :: string
  BlogPost_author :: string
  BlogPost_tags :: "string list"
  BlogPost_published :: bool
  BlogPost_published_at :: "int option"

definition BlogPost_dump :: "BlogPost \<Rightarrow> doc" where
  "BlogPost_dump b =
     [(''title'', JStr (BlogPost_title b)), (''slug'', JStr (BlogPost_slug b)),
      (''excerpt'', opt_str (BlogPost_excerpt b)), (''content'', JStr (BlogPost_content b)),
      (''author'', JStr (BlogPost_author b)), (''tags'', JList (map JStr (BlogPost_tags b))),
      (''published'', JBool (BlogPost_published b)),
      (''published_at'', opt_date (BlogPost_published_at b))]"

text \<open>The request bodies declared in \<^verbatim>\<open>main.py\<close>.\<close>

record OTPStart =
  OTPStart_channel :: string
  OTPStart_target :: string
  OTPStart_purpose :: string

record OTPVerify =
  OTPVerify_target :: string
  OTPVerify_code :: string
  OTPVerify_purpose :: string

section \<open>The auth dependency\<close>

text \<open>
  \<^verbatim>\<open>oauth2_scheme = OAuth2PasswordBearer(tokenUrl="/auth/login")\<close> is the framework's
  extractor of the bearer token: a request without an \<^verbatim>\<open>Authorization\<close> header, or with
  another scheme than \<^verbatim>\<open>Bearer\<close>, is answered 401 before \<^verbatim>\<open>get_current_user\<close> runs.
\<close>

datatype authorization = NoHeader | Bearer token | OtherScheme string

fun oauth2_scheme :: "authorization \<Rightarrow> HTTPException + token" where
  "oauth2_scheme NoHeader = Inl (HTTPException 401 ''Not authenticated'')"
| "oauth2_scheme (OtherScheme _) = Inl (HTTPException 401 ''Not authenticated'')"
| "oauth2_scheme (Bearer t) = Inr t"

text \<open>
  \<^verbatim>\<open>get_current_user\<close> in two layers, as the source has it: the body of the \<^verbatim>\<open>try\<close> block,
  whose result is the identity or the exception raised inside it (the two
  \<^verbatim>\<open>HTTPException\<close>s included), and the \<^verbatim>\<open>except\<close> clauses around it. The second clause,
  \<^verbatim>\<open>except Exception\<close>, also catches the \<^verbatim>\<open>HTTPException\<close>s raised in the body.
\<close>

definition get_current_user_try ::
  "string \<Rightarrow> int \<Rightarrow> store option \<Rightarrow> token \<Rightarrow> py_exception + doc" where
  "get_current_user_try secret now db tok =
     (case jwt_decode tok secret [JWT_ALGO] now of
        Inl e \<Rightarrow> Inl e
      | Inr payload \<Rightarrow>
          let email = dict_get payload ''sub'' in
          if \<not> truthy email then Inl (HTTPError (HTTPException 401 ''Invalid token''))
          else
            let user = (case db of
                          None \<Rightarrow> None
                        | Some s \<Rightarrow> find_one s ''user'' [(''email'', email)]) in
            if \<not> doc_truthy user then Inl (HTTPError (HTTPException 401 ''User not found''))
            else (case user of
                    None \<Rightarrow> Inl TypeError
                  | Some u \<Rightarrow>
                      (case map_of u ''email'' of
                         None \<Rightarrow> Inl (KeyError ''email'')
                       | Some em \<Rightarrow>
                           Inr [(''email'', em), (''name'', dict_get u ''name''),
                                (''role'', dict_get_default u ''role'' (JStr ''user''))])))"

definition get_current_user ::
  "string \<Rightarrow> int \<Rightarrow> store option \<Rightarrow> token \<Rightarrow> HTTPException + doc" where
  "get_current_user secret now db tok =
     (case get_current_user_try secret now db tok of
        Inr user \<Rightarrow> Inr user
      | Inl ExpiredSignatureError \<Rightarrow> Inl (HTTPException 401 ''Token expired'')
      | Inl _ \<Rightarrow> Inl (HTTPException 401 ''Invalid token''))"

text \<open>\<^verbatim>\<open>user = Depends(get_current_user)\<close> with \<^verbatim>\<open>token = Depends(oauth2_scheme)\<close>: the
  dependencies run before the handler, and an exception of theirs is the response.\<close>

definition authenticate ::
  "string \<Rightarrow> int \<Rightarrow> store option \<Rightarrow> authorization \<Rightarrow> HTTPException + doc" where
  "authenticate secret now db auth =
     (case oauth2_scheme auth of
        Inl e \<Rightarrow> Inl e
      | Inr tok \<Rightarrow> get_current_user secret now db tok)"

type_synonym 'a outcome = "(HTTPException + 'a) \<times> store option"

definition protected ::
  "string \<Rightarrow> int \<Rightarrow> store option \<Rightarrow> authorization \<Rightarrow> (doc \<Rightarrow> 'a outcome) \<Rightarrow> 'a outcome" where
  "protected secret now db auth handler =
     (case authenticate secret now db auth of
        Inl e \<Rightarrow> (Inl e, db)
      | Inr user \<Rightarrow> handler user)"

section \<open>Route handlers\<close>

text \<open>
  Every handler takes the store handle \<open>db\<close> (the module global of the source) and returns
  its response or the exception that leaves it, together with the store afterwards.
\<close>

definition db_not_configured :: HTTPException where
  "db_not_configured = HTTPException 500 ''Database not configured''"

definition register ::
  "crypt_context \<Rightarrow> string \<Rightarrow> int \<Rightarrow> store option \<Rightarrow> string \<Rightarrow> string \<Rightarrow> string \<Rightarrow> Token outcome"
  where
  "register pwd_context secret now db name email password =
     (case db of
        None \<Rightarrow> (Inl db_not_configured, db)
      | Some s \<Rightarrow>
          if doc_truthy (find_one s ''user'' [(''email'', JStr email)])
          then (Inl (HTTPException 400 ''Email already registered''), db)
          else
            let user = \<lparr> User_name = name, User_email = email, User_phone = None,
                         User_password_hash = Some (hash_password pwd_context password),
                         User_role = ''user'', User_is_verified = False \<rparr> in
            (case create_document db ''user'' (User_dump user) of
               Inl _ \<Rightarrow> (Inl unhandled, db)
             | Inr s' \<Rightarrow>
                 let tok = create_token secret now [(''sub'', JStr email)] None
                 in (Inr (mk_Token tok), Some s')))"

definition login ::
  "crypt_context \<Rightarrow> string \<Rightarrow> int \<Rightarrow> store option \<Rightarrow> string \<Rightarrow> string \<Rightarrow> Token outcome" where
  "login pwd_context secret now db username password =
     (case db of
        None \<Rightarrow> (Inl db_not_configured, db)
      | Some s \<Rightarrow>
          (case find_one s ''user'' [(''email'', JStr username)] of
             None \<Rightarrow> (Inl (HTTPException 400 ''Incorrect email or password''), db)
           | Some user \<Rightarrow>
               if user = [] then (Inl (HTTPException 400 ''Incorrect email or password''), db)
               else
                 (case verify_password pwd_context password
                         (dict_get_default user ''password_hash'' (JStr [])) of
                    Inl _ \<Rightarrow> (Inl unhandled, db)
                  | Inr ok \<Rightarrow>
                      if \<not> ok then (Inl (HTTPException 400 ''Incorrect email or password''), db)
                      else
                        (case map_of user ''email'' of
                           None \<Rightarrow> (Inl unhandled, db)
                         | Some em \<Rightarrow>
                             let tok = create_token secret now [(''sub'', em)] None
                             in (Inr (mk_Token tok), db)))))"

definition otp_start :: "int \<Rightarrow> store option \<Rightarrow> OTPStart \<Rightarrow> doc outcome" where
  "otp_start now db body =
     (case db of
        None \<Rightarrow> (Inl db_not_configured, db)
      | Some s \<Rightarrow>
          let record = \<lparr> OTPRequest_channel = OTPStart_channel body,
                           OTPRequest_target = OTPStart_target body,
                           OTPRequest_code = ''123456'',
                           OTPRequest_purpose = OTPStart_purpose body,
                           OTPRequest_expires_at = now + 10 * 60,
                           OTPRequest_verified = False \<rparr> in
          (case create_document db ''otprequest'' (OTPRequest_dump record) of
             Inl _ \<Rightarrow> (Inl unhandled, db)
           | Inr s' \<Rightarrow> (Inr [(''sent'', JBool True), (''dev_code'', JStr ''123456'')], Some s')))"

definition otp_verify :: "store option \<Rightarrow> OTPVerify \<Rightarrow> doc outcome" where
  "otp_verify db body =
     (case db of
        None \<Rightarrow> (Inl db_not_configured, db)
      | Some s \<Rightarrow>
          let req = find_one s ''otprequest''
                      [(''target'', JStr (OTPVerify_target body)),
                       (''code'', JStr (OTPVerify_code body)),
                       (''purpose'', JStr (OTPVerify_purpose body))] in
          if \<not> doc_truthy req then (Inl (HTTPException 400 ''Invalid code''), db)
          else (Inr [(''verified'', JBool True)], db))"

text \<open>
  The two public listings rebuild a model from each stored document without its \<^verbatim>\<open>_id\<close>.
  The validation done by the model's constructor is the argument \<open>parse\<close>; a document it
  refuses raises inside the handler.
\<close>

definition strip_id :: "doc \<Rightarrow> doc" where
  "strip_id d = filter (\<lambda>(k, v). k \<noteq> ''_id'') d"

definition list_packages :: "(doc \<Rightarrow> Package option) \<Rightarrow> store option \<Rightarrow> Package list outcome" where
  "list_packages parse db =
     (case db of
        None \<Rightarrow> (Inr [], db)
      | Some s \<Rightarrow>
          (case get_documents db ''package'' of
             Inl _ \<Rightarrow> (Inl unhandled, db)
           | Inr docs \<Rightarrow>
               (case those (map (\<lambda>d. parse (strip_id d)) docs) of
                  None \<Rightarrow> (Inl unhandled, db)
                | Some ms \<Rightarrow> (Inr ms, db))))"

definition forbidden :: HTTPException where
  "forbidden = HTTPException 403 ''Forbidden''"

definition create_package :: "store option \<Rightarrow> Package \<Rightarrow> doc \<Rightarrow> doc outcome" where
  "create_package db pkg user =
     (if dict_get user ''role'' \<noteq> JStr ''admin'' then (Inl forbidden, db)
      else (case create_document db ''package'' (Package_dump pkg) of
              Inl _ \<Rightarrow> (Inl unhandled, db)
            | Inr s' \<Rightarrow> (Inr [(''ok'', JBool True)], Some s')))"

definition list_posts :: "(doc \<Rightarrow> BlogPost option) \<Rightarrow> store option \<Rightarrow> BlogPost list outcome" where
  "list_posts parse db =
     (case db of
        None \<Rightarrow> (Inr [], db)
      | Some s \<Rightarrow>
          (case get_documents db ''blogpost'' of
             Inl _ \<Rightarrow> (Inl unhandled, db)
           | Inr docs \<Rightarrow>
               (case those (map (\<lambda>d. parse (strip_id d)) docs) of
                  None \<Rightarrow> (Inl unhandled, db)
                | Some ms \<Rightarrow> (Inr ms, db))))"

definition create_post :: "store option \<Rightarrow> BlogPost \<Rightarrow> doc \<Rightarrow> doc outcome" where
  "create_post db post user =
     (if dict_get user ''role'' \<noteq> JStr ''admin'' then (Inl forbidden, db)
      else (case create_document db ''blogpost'' (BlogPost_dump post) of
              Inl _ \<Rightarrow> (Inl unhandled, db)
            | Inr s' \<Rightarrow> (Inr [(''ok'', JBool True)], Some s')))"

definition create_lead :: "store option \<Rightarrow> Lead \<Rightarrow> doc outcome" where
  "create_lead db lead =
     (case db of
        None \<Rightarrow> (Inl db_not_configured, db)
      | Some s \<Rightarrow>
          (case create_document db ''lead'' (Lead_dump lead) of
             Inl _ \<Rightarrow> (Inl unhandled, db)
           | Inr s' \<Rightarrow> (Inr [(''ok'', JBool True)], Some s')))"

definition create_appointment :: "store option \<Rightarrow> Appointment \<Rightarrow> doc outcome" where
  "create_appointment db appt =
     (case db of
        None \<Rightarrow> (Inl db_not_configured, db)
      | Some s \<Rightarrow>
          (case create_document db ''appointment'' (Appointment_dump appt) of
             Inl _ \<Rightarrow> (Inl unhandled, db)
           | Inr s' \<Rightarrow> (Inr [(''ok'', JBool True)], Some s')))"

definition admin_leads :: "store option \<Rightarrow> doc \<Rightarrow> doc list outcome" where
  "admin_leads db user =
     (if dict_get user ''role'' \<noteq> JStr ''admin'' then (Inl forbidden, db)
      else (case get_documents db ''lead'' of
              Inl _ \<Rightarrow> (Inl unhandled, db)
            | Inr docs \<Rightarrow> (Inr docs, db)))"

definition admin_appointments :: "store option \<Rightarrow> doc \<Rightarrow> doc list outcome" where
  "admin_appointments db user =
     (if dict_get user ''role'' \<noteq> JStr ''admin'' then (Inl forbidden, db)
      else (case get_documents db ''appointment'' of
              Inl _ \<Rightarrow> (Inl unhandled, db)
            | Inr docs \<Rightarrow> (Inr docs, db)))"

section \<open>The protected routes\<close>

text \<open>The four admin routes as they are mounted: the auth dependency, then the handler.\<close>

definition POST_packages ::
  "string \<Rightarrow> int \<Rightarrow> store option \<Rightarrow> authorization \<Rightarrow> Package \<Rightarrow> doc outcome" where
  "POST_packages secret now db auth pkg = protected secret now db auth (create_package db pkg)"

definition POST_blog ::
  "string \<Rightarrow> int \<Rightarrow> store option \<Rightarrow> authorization \<Rightarrow> BlogPost \<Rightarrow> doc outcome" where
  "POST_blog secret now db auth post = protected secret now db auth (create_post db post)"

definition GET_admin_leads ::
  "string \<Rightarrow> int \<Rightarrow> store option \<Rightarrow> authorization \<Rightarrow> doc list outcome" where
  "GET_admin_leads secret now db auth = protected secret now db auth (admin_leads db)"

definition GET_admin_appointments ::
  "string \<Rightarrow> int \<Rightarrow> store option \<Rightarrow> authorization \<Rightarrow> doc list outcome" where
  "GET_admin_appointments secret now db auth =
     protected secret now db auth (admin_appointments db)"

section \<open>Sample data\<close>

text \<open>
  A small store on which the definitions are run: a registered user, an administrator, a
  user document written without \<^verbatim>\<open>role\<close> and \<^verbatim>\<open>password_hash\<close> fields, and a one-time code
  whose expiry lies in the past of every clock reading used below.
\<close>

definition alice_doc :: doc where
  "alice_doc = User_dump \<lparr> User_name = ''A'', User_email = ''a@x.com'', User_phone = None,
       User_password_hash = Some (hash_password plain_context ''pw''),
       User_role = ''user'', User_is_verified = False \<rparr>"

definition root_doc :: doc where
  "root_doc = User_dump \<lparr> User_name = ''R'', User_email = ''root@x.com'', User_phone = None,
       User_password_hash = Some (hash_password plain_context ''rootpw''),
       User_role = ''admin'', User_is_verified = True \<rparr>"

definition legacy_doc :: doc where
  "legacy_doc = [(''email'', JStr ''old@x.com''), (''name'', JStr ''O'')]"

definition stale_otp :: doc where
  "stale_otp = OTPRequest_dump \<lparr> OTPRequest_channel = ''email'', OTPRequest_target = ''a@x.com'',
       OTPRequest_code = ''123456'', OTPRequest_purpose = ''login'',
       OTPRequest_expires_at = 600, OTPRequest_verified = False \<rparr>"

definition demo_store :: store where
  "demo_store collection =
     (if collection = ''user'' then [alice_doc, root_doc, legacy_doc]
      else if collection = ''otprequest'' then [stale_otp]
      else [])"

definition demo_package :: Package where
  "demo_package = \<lparr> Package_slug = ''basic'', Package_title = ''Basic'',
       Package_description = ''Starter'', Package_features = [''one''],
       Package_price_inr = 999, Package_is_popular = False \<rparr>"

definition demo_post :: BlogPost where
  "demo_post = \<lparr> BlogPost_title = ''Hello'', BlogPost_slug = ''hello'', BlogPost_excerpt = None,
       BlogPost_content = ''Text'', BlogPost_author = ''Shreyash Suryawanshi'',
       BlogPost_tags = [], BlogPost_published = True, BlogPost_published_at = None \<rparr>"

text \<open>A validator that refuses every document.\<close>

definition refuse :: "doc \<Rightarrow> 'a option" where
  "refuse d = None"

section \<open>Auxiliary facts\<close>

lemma matches_single: "matches [(k, v)] d = (map_of d k = Some v)"
  by (simp add: matches_def)

lemma find_one_SomeD: "find_one s c q = Some d \<Longrightarrow> matches q d \<and> d \<in> set (s c)"
  unfolding find_one_def by (auto simp: find_Some_iff)

lemma find_one_None_iff: "find_one s c q = None \<longleftrightarrow> (\<forall>d \<in> set (s c). \<not> matches q d)"
  unfolding find_one_def by (auto simp: find_None_iff)

lemma find_one_single_Some:
  "find_one s c [(k, v)] = Some d \<Longrightarrow> map_of d k = Some v \<and> d \<noteq> []"
  by (auto dest!: find_one_SomeD simp: matches_single)

lemma find_one_exists:
  assumes "d \<in> set (s c)" "matches q d"
  shows "\<exists>d'. find_one s c q = Some d' \<and> matches q d'"
proof (cases "find_one s c q")
  case None
  with assms show ?thesis by (simp add: find_one_None_iff)
next
  case (Some d')
  then show ?thesis by (auto dest: find_one_SomeD)
qed

lemma decode_create_token:
  "jwt_decode (create_token secret T [(''sub'', v)] None) secret [JWT_ALGO] now =
     (if T + 86400 \<le> now then Inl ExpiredSignatureError
      else Inr [(''sub'', v), (''exp'', JInt (T + 86400))])"
  by (simp add: jwt_decode_def create_token_def jwt_encode_def TOKEN_EXPIRE_MINUTES_def Let_def)

lemma get_current_user_resolved:
  assumes "jwt_decode tok secret [JWT_ALGO] now = Inr payload"
    and "truthy (dict_get payload ''sub'')"
    and "find_one s ''user'' [(''email'', dict_get payload ''sub'')] = Some u"
  shows "get_current_user secret now (Some s) tok =
           Inr [(''email'', dict_get payload ''sub''), (''name'', dict_get u ''name''),
                (''role'', dict_get_default u ''role'' (JStr ''user''))]"
proof -
  from assms(3) have "map_of u ''email'' = Some (dict_get payload ''sub'')" and "u \<noteq> []"
    by (auto dest: find_one_single_Some)
  with assms show ?thesis
    by (simp add: get_current_user_def get_current_user_try_def)
qed

lemma authenticate_unauthorized:
  "authenticate secret now db auth = Inl e \<Longrightarrow> status_code e = 401"
  by (cases auth)
     (auto simp: authenticate_def get_current_user_def get_current_user_try_def Let_def
           split: sum.splits py_exception.splits if_splits option.splits)


lemmas demo_defs = alice_doc_def root_doc_def legacy_doc_def stale_otp_def demo_store_def
  User_dump_def OTPRequest_dump_def hash_password_def plain_context_def bcrypt_ident_def

lemma demo_find_alice:
  "find_one demo_store ''user'' [(''email'', JStr ''a@x.com'')] = Some alice_doc"
  by (simp add: find_one_def matches_def demo_defs)

lemma demo_find_root:
  "find_one demo_store ''user'' [(''email'', JStr ''root@x.com'')] = Some root_doc"
  by (simp add: find_one_def matches_def demo_defs)

lemma demo_find_legacy:
  "find_one demo_store ''user'' [(''email'', JStr ''old@x.com'')] = Some legacy_doc"
  by (simp add: find_one_def matches_def demo_defs)

lemma demo_find_nobody:
  "find_one demo_store ''user'' [(''email'', JStr ''nobody@x.com'')] = None"
  by (simp add: find_one_def matches_def demo_defs)

lemma demo_authenticate_alice:
  "authenticate ''devsecret'' 60 (Some demo_store)
     (Bearer (create_token ''devsecret'' 0 [(''sub'', JStr ''a@x.com'')] None)) =
   Inr [(''email'', JStr ''a@x.com''), (''name'', JStr ''A''), (''role'', JStr ''user'')]"
  by (simp add: authenticate_def get_current_user_def get_current_user_try_def
        decode_create_token dict_get_def dict_get_default_def demo_find_alice
        alice_doc_def User_dump_def)

section \<open>The role gate\<close>

text \<open>
  C1. On each of the four admin routes (\<^verbatim>\<open>POST /packages\<close>, \<^verbatim>\<open>POST /blog\<close>,
  \<^verbatim>\<open>GET /admin/leads\<close>, \<^verbatim>\<open>GET /admin/appointments\<close>) an identity whose role is anything but
  the string \<^verbatim>\<open>admin\<close> is answered 403 Forbidden and the store is left as it was: this
  holds for the handler on any identity, and for the mounted route on any request that the
  auth dependency resolves to such an identity. Conversely the gate lets the exact role
  \<^verbatim>\<open>admin\<close> through: the handler's answer is then not Forbidden.
\<close>

theorem role_gate_only_admin:
  "(dict_get user ''role'' \<noteq> JStr ''admin'' \<longrightarrow>
       create_package db pkg user = (Inl (HTTPException 403 ''Forbidden''), db)
     \<and> create_post db post user = (Inl (HTTPException 403 ''Forbidden''), db)
     \<and> admin_leads db user = (Inl (HTTPException 403 ''Forbidden''), db)
     \<and> admin_appointments db user = (Inl (HTTPException 403 ''Forbidden''), db))
 \<and> (authenticate secret now db auth = Inr user \<and> dict_get user ''role'' \<noteq> JStr ''admin'' \<longrightarrow>
       POST_packages secret now db auth pkg = (Inl (HTTPException 403 ''Forbidden''), db)
     \<and> POST_blog secret now db auth post = (Inl (HTTPException 403 ''Forbidden''), db)
     \<and> GET_admin_leads secret now db auth = (Inl (HTTPException 403 ''Forbidden''), db)
     \<and> GET_admin_appointments secret now db auth = (Inl (HTTPException 403 ''Forbidden''), db))
 \<and> (dict_get user ''role'' = JStr ''admin'' \<longrightarrow>
       fst (create_package db pkg user) \<noteq> Inl (HTTPException 403 ''Forbidden'')
     \<and> fst (create_post db post user) \<noteq> Inl (HTTPException 403 ''Forbidden'')
     \<and> fst (admin_leads db user) \<noteq> Inl (HTTPException 403 ''Forbidden'')
     \<and> fst (admin_appointments db user) \<noteq> Inl (HTTPException 403 ''Forbidden''))"
proof (intro conjI impI)
  assume "dict_get user ''role'' = JStr ''admin''"
  then show "fst (create_package db pkg user) \<noteq> Inl (HTTPException 403 ''Forbidden'')"
    and "fst (create_post db post user) \<noteq> Inl (HTTPException 403 ''Forbidden'')"
    and "fst (admin_leads db user) \<noteq> Inl (HTTPException 403 ''Forbidden'')"
    and "fst (admin_appointments db user) \<noteq> Inl (HTTPException 403 ''Forbidden'')"
    by (simp_all add: create_package_def create_post_def admin_leads_def admin_appointments_def
          unhandled_def split: sum.splits)
qed (simp_all add: create_package_def create_post_def admin_leads_def admin_appointments_def
       forbidden_def POST_packages_def POST_blog_def GET_admin_leads_def
       GET_admin_appointments_def protected_def)

theorem role_gate_only_admin_witness:
  "dict_get [(''email'', JStr ''a@x.com''), (''name'', JStr ''A''), (''role'', JStr ''user'')] ''role''
     \<noteq> JStr ''admin''
   \<and> create_package (Some demo_store) demo_package
        [(''email'', JStr ''a@x.com''), (''name'', JStr ''A''), (''role'', JStr ''user'')]
       = (Inl (HTTPException 403 ''Forbidden''), Some demo_store)
   \<and> GET_admin_leads ''devsecret'' 60 (Some demo_store)
        (Bearer (create_token ''devsecret'' 0 [(''sub'', JStr ''a@x.com'')] None))
       = (Inl (HTTPException 403 ''Forbidden''), Some demo_store)
   \<and> dict_get [(''email'', JStr ''root@x.com''), (''name'', JStr ''R''), (''role'', JStr ''admin'')]
        ''role'' = JStr ''admin''
   \<and> fst (admin_leads (Some demo_store)
        [(''email'', JStr ''root@x.com''), (''name'', JStr ''R''), (''role'', JStr ''admin'')])
       \<noteq> Inl (HTTPException 403 ''Forbidden'')"
proof -
  let ?alice = "[(''email'', JStr ''a@x.com''), (''name'', JStr ''A''), (''role'', JStr ''user'')]"
  let ?root = "[(''email'', JStr ''root@x.com''), (''name'', JStr ''R''), (''role'', JStr ''admin'')]"
  have user: "dict_get ?alice ''role'' \<noteq> JStr ''admin''"
    by (simp add: dict_get_def)
  have admin: "dict_get ?root ''role'' = JStr ''admin''"
    by (simp add: dict_get_def)
  note gate = role_gate_only_admin
    [where user = ?alice and db = "Some demo_store" and pkg = demo_package and post = demo_post
       and secret = "''devsecret''" and now = 60
       and auth = "Bearer (create_token ''devsecret'' 0 [(''sub'', JStr ''a@x.com'')] None)"]
  note open_gate = role_gate_only_admin
    [where user = ?root and db = "Some demo_store" and pkg = demo_package and post = demo_post
       and secret = "''devsecret''" and now = 60 and auth = NoHeader]
  from gate open_gate user admin demo_authenticate_alice show ?thesis
    by blast
qed

section \<open>The auth dependency rejects with 401\<close>

text \<open>
  C2. On a protected request the auth dependency answers 401 Unauthorized, and the handler
  does not run, in each of these cases: there is no bearer token; the token is not a
  well-formed token, or its signature was made with another key; the token has expired;
  the token carries no \<^verbatim>\<open>sub\<close> claim; the subject has no user document in the store.
  More generally every rejection by the dependency has status 401, and a protected route
  returns that rejection with the store untouched, whatever its handler. The detail is
  \<^verbatim>\<open>Not authenticated\<close> without a token, \<^verbatim>\<open>Token expired\<close> on expiry and
  \<^verbatim>\<open>Invalid token\<close> otherwise: the \<^verbatim>\<open>User not found\<close> exception is raised inside the
  \<^verbatim>\<open>try\<close> block and replaced by the \<^verbatim>\<open>except Exception\<close> clause.
\<close>

theorem auth_rejections_are_unauthorized:
  "authenticate secret now db NoHeader = Inl (HTTPException 401 ''Not authenticated'')
 \<and> authenticate secret now db (Bearer (Opaque raw)) = Inl (HTTPException 401 ''Invalid token'')
 \<and> (key \<noteq> secret \<longrightarrow>
       authenticate secret now db (Bearer (JWT alg key claims))
         = Inl (HTTPException 401 ''Invalid token''))
 \<and> (map_of claims ''exp'' = Some (JInt exp) \<and> exp \<le> now \<longrightarrow>
       authenticate secret now db (Bearer (JWT JWT_ALGO secret claims))
         = Inl (HTTPException 401 ''Token expired''))
 \<and> (jwt_decode tok secret [JWT_ALGO] now = Inr payload \<and> map_of payload ''sub'' = None \<longrightarrow>
       authenticate secret now db (Bearer tok) = Inl (HTTPException 401 ''Invalid token''))
 \<and> (jwt_decode tok secret [JWT_ALGO] now = Inr payload \<and> truthy (dict_get payload ''sub'')
       \<and> find_one s ''user'' [(''email'', dict_get payload ''sub'')] = None \<longrightarrow>
       authenticate secret now (Some s) (Bearer tok) = Inl (HTTPException 401 ''Invalid token''))
 \<and> (authenticate secret now db auth = Inl e \<longrightarrow>
       status_code e = 401 \<and> protected secret now db auth handler = (Inl e, db))"
proof (intro conjI impI)
  show "authenticate secret now db NoHeader = Inl (HTTPException 401 ''Not authenticated'')"
    by (simp add: authenticate_def)
  show "authenticate secret now db (Bearer (Opaque raw)) = Inl (HTTPException 401 ''Invalid token'')"
    by (simp add: authenticate_def get_current_user_def get_current_user_try_def jwt_decode_def)
next
  assume "key \<noteq> secret"
  then have "jwt_decode (JWT alg key claims) secret [JWT_ALGO] now = Inl InvalidAlgorithmError
           \<or> jwt_decode (JWT alg key claims) secret [JWT_ALGO] now = Inl InvalidSignatureError"
    by (simp add: jwt_decode_def)
  then show "authenticate secret now db (Bearer (JWT alg key claims))
               = Inl (HTTPException 401 ''Invalid token'')"
    by (auto simp: authenticate_def get_current_user_def get_current_user_try_def)
next
  assume "map_of claims ''exp'' = Some (JInt exp) \<and> exp \<le> now"
  then have "jwt_decode (JWT JWT_ALGO secret claims) secret [JWT_ALGO] now = Inl ExpiredSignatureError"
    by (simp add: jwt_decode_def)
  then show "authenticate secret now db (Bearer (JWT JWT_ALGO secret claims))
               = Inl (HTTPException 401 ''Token expired'')"
    by (simp add: authenticate_def get_current_user_def get_current_user_try_def)
next
  assume "jwt_decode tok secret [JWT_ALGO] now = Inr payload \<and> map_of payload ''sub'' = None"
  then show "authenticate secret now db (Bearer tok) = Inl (HTTPException 401 ''Invalid token'')"
    by (simp add: authenticate_def get_current_user_def get_current_user_try_def dict_get_def)
next
  assume "jwt_decode tok secret [JWT_ALGO] now = Inr payload \<and> truthy (dict_get payload ''sub'')
       \<and> find_one s ''user'' [(''email'', dict_get payload ''sub'')] = None"
  then show "authenticate secret now (Some s) (Bearer tok) = Inl (HTTPException 401 ''Invalid token'')"
    by (simp add: authenticate_def get_current_user_def get_current_user_try_def)
next
  assume rejected: "authenticate secret now db auth = Inl e"
  then show "status_code e = 401"
    by (rule authenticate_unauthorized)
  from rejected show "protected secret now db auth handler = (Inl e, db)"
    by (simp add: protected_def)
qed

theorem auth_rejections_are_unauthorized_witness:
  "authenticate ''devsecret'' 60 (Some demo_store) NoHeader
     = Inl (HTTPException 401 ''Not authenticated'')
 \<and> authenticate ''devsecret'' 60 (Some demo_store) (Bearer (Opaque ''garbage''))
     = Inl (HTTPException 401 ''Invalid token'')
 \<and> ''forged'' \<noteq> ''devsecret''
 \<and> authenticate ''devsecret'' 60 (Some demo_store)
      (Bearer (JWT ''HS256'' ''forged'' [(''sub'', JStr ''root@x.com''), (''exp'', JInt 100)]))
     = Inl (HTTPException 401 ''Invalid token'')
 \<and> authenticate ''devsecret'' 86460 (Some demo_store)
      (Bearer (JWT JWT_ALGO ''devsecret'' [(''sub'', JStr ''a@x.com''), (''exp'', JInt 86400)]))
     = Inl (HTTPException 401 ''Token expired'')
 \<and> authenticate ''devsecret'' 60 (Some demo_store)
      (Bearer (JWT JWT_ALGO ''devsecret'' [(''exp'', JInt 86400)]))
     = Inl (HTTPException 401 ''Invalid token'')
 \<and> authenticate ''devsecret'' 60 (Some demo_store)
      (Bearer (create_token ''devsecret'' 0 [(''sub'', JStr ''nobody@x.com'')] None))
     = Inl (HTTPException 401 ''Invalid token'')
 \<and> protected ''devsecret'' 60 (Some demo_store) NoHeader (admin_leads (Some demo_store))
     = (Inl (HTTPException 401 ''Not authenticated''), Some demo_store)"
proof -
  note absent = auth_rejections_are_unauthorized [THEN conjunct1]
  note broken = auth_rejections_are_unauthorized [THEN conjunct2, THEN conjunct1]
  note forged = auth_rejections_are_unauthorized
    [THEN conjunct2, THEN conjunct2, THEN conjunct1, THEN mp]
  note never_anonymous = auth_rejections_are_unauthorized
    [THEN conjunct2, THEN conjunct2, THEN conjunct2, THEN conjunct2, THEN conjunct2,
     THEN conjunct2, THEN mp, THEN conjunct2]
  have key: "''forged'' \<noteq> ''devsecret''"
    by simp
  have c1: "authenticate ''devsecret'' 60 (Some demo_store) NoHeader
      = Inl (HTTPException 401 ''Not authenticated'')"
    by (rule absent)
  have c2: "authenticate ''devsecret'' 60 (Some demo_store) (Bearer (Opaque ''garbage''))
      = Inl (HTTPException 401 ''Invalid token'')"
    by (rule broken)
  have c3: "authenticate ''devsecret'' 60 (Some demo_store)
      (Bearer (JWT ''HS256'' ''forged'' [(''sub'', JStr ''root@x.com''), (''exp'', JInt 100)]))
      = Inl (HTTPException 401 ''Invalid token'')"
    by (rule forged) (rule key)
  have c4: "authenticate ''devsecret'' 86460 (Some demo_store)
      (Bearer (JWT JWT_ALGO ''devsecret'' [(''sub'', JStr ''a@x.com''), (''exp'', JInt 86400)]))
      = Inl (HTTPException 401 ''Token expired'')"
    by (rule auth_rejections_are_unauthorized
          [where exp = 86400, THEN conjunct2, THEN conjunct2, THEN conjunct2, THEN conjunct1,
           THEN mp]) simp
  have c5: "authenticate ''devsecret'' 60 (Some demo_store)
      (Bearer (JWT JWT_ALGO ''devsecret'' [(''exp'', JInt 86400)]))
      = Inl (HTTPException 401 ''Invalid token'')"
    by (rule auth_rejections_are_unauthorized
          [where payload = "[(''exp'', JInt 86400)]", THEN conjunct2, THEN conjunct2,
           THEN conjunct2, THEN conjunct2, THEN conjunct1, THEN mp])
       (simp add: jwt_decode_def)
  have c6: "authenticate ''devsecret'' 60 (Some demo_store)
      (Bearer (create_token ''devsecret'' 0 [(''sub'', JStr ''nobody@x.com'')] None))
      = Inl (HTTPException 401 ''Invalid token'')"
    by (rule auth_rejections_are_unauthorized
          [where payload = "[(''sub'', JStr ''nobody@x.com''), (''exp'', JInt 86400)]",
           THEN conjunct2, THEN conjunct2, THEN conjunct2, THEN conjunct2, THEN conjunct2,
           THEN conjunct1, THEN mp])
       (simp add: decode_create_token dict_get_def demo_find_nobody)
  have c7: "protected ''devsecret'' 60 (Some demo_store) NoHeader (admin_leads (Some demo_store))
      = (Inl (HTTPException 401 ''Not authenticated''), Some demo_store)"
    by (rule never_anonymous) (rule c1)
  from key c1 c2 c3 c4 c5 c6 c7 show ?thesis
    by (intro conjI)
qed

section \<open>Tokens: round trip and lifetime\<close>

lemma decode_create_token_delta:
  "d \<noteq> 0 \<Longrightarrow>
   jwt_decode (create_token secret T [(''sub'', v)] (Some d)) secret [JWT_ALGO] now =
     (if T + d \<le> now then Inl ExpiredSignatureError
      else Inr [(''sub'', v), (''exp'', JInt (T + d))])"
  by (simp add: jwt_decode_def create_token_def jwt_encode_def Let_def)

text \<open>
  C3. Verifying a token under the secret it was issued with, before its expiry, gives back
  the claims it was issued with, so the \<^verbatim>\<open>sub\<close> claim read by \<^verbatim>\<open>get_current_user\<close> is exactly
  the email string the token was issued for. This holds for every string, for the default
  lifetime and for an explicit one; and when the email is not empty and has a user document,
  \<^verbatim>\<open>get_current_user\<close> resolves the token to the identity with that email.
\<close>

theorem token_roundtrip_subject:
  "(now < T + 60 * TOKEN_EXPIRE_MINUTES \<longrightarrow>
      jwt_decode (create_token secret T [(''sub'', JStr e)] None) secret [JWT_ALGO] now
        = Inr [(''sub'', JStr e), (''exp'', JInt (T + 60 * TOKEN_EXPIRE_MINUTES))]
    \<and> dict_get [(''sub'', JStr e), (''exp'', JInt (T + 60 * TOKEN_EXPIRE_MINUTES))] ''sub''
        = JStr e)
 \<and> (d \<noteq> 0 \<and> now < T + d \<longrightarrow>
      jwt_decode (create_token secret T [(''sub'', JStr e)] (Some d)) secret [JWT_ALGO] now
        = Inr [(''sub'', JStr e), (''exp'', JInt (T + d))]
    \<and> dict_get [(''sub'', JStr e), (''exp'', JInt (T + d))] ''sub'' = JStr e)
 \<and> (now < T + 60 * TOKEN_EXPIRE_MINUTES \<and> e \<noteq> []
      \<and> find_one s ''user'' [(''email'', JStr e)] = Some u \<longrightarrow>
      get_current_user secret now (Some s) (create_token secret T [(''sub'', JStr e)] None)
        = Inr [(''email'', JStr e), (''name'', dict_get u ''name''),
               (''role'', dict_get_default u ''role'' (JStr ''user''))])"
proof (intro conjI impI)
  assume live: "now < T + 60 * TOKEN_EXPIRE_MINUTES"
  then show "jwt_decode (create_token secret T [(''sub'', JStr e)] None) secret [JWT_ALGO] now
      = Inr [(''sub'', JStr e), (''exp'', JInt (T + 60 * TOKEN_EXPIRE_MINUTES))]"
    by (simp add: decode_create_token TOKEN_EXPIRE_MINUTES_def)
next
  assume "d \<noteq> 0 \<and> now < T + d"
  then show "jwt_decode (create_token secret T [(''sub'', JStr e)] (Some d)) secret [JWT_ALGO] now
      = Inr [(''sub'', JStr e), (''exp'', JInt (T + d))]"
    by (simp add: decode_create_token_delta)
next
  assume resolved: "now < T + 60 * TOKEN_EXPIRE_MINUTES \<and> e \<noteq> []
      \<and> find_one s ''user'' [(''email'', JStr e)] = Some u"
  let ?payload = "[(''sub'', JStr e), (''exp'', JInt (T + 86400))]"
  from resolved have decoded:
    "jwt_decode (create_token secret T [(''sub'', JStr e)] None) secret [JWT_ALGO] now = Inr ?payload"
    by (simp add: decode_create_token TOKEN_EXPIRE_MINUTES_def)
  have subject: "dict_get ?payload ''sub'' = JStr e"
    by (simp add: dict_get_def)
  from resolved have "truthy (dict_get ?payload ''sub'')"
    and "find_one s ''user'' [(''email'', dict_get ?payload ''sub'')] = Some u"
    by (simp_all add: subject)
  from get_current_user_resolved [OF decoded this]
  show "get_current_user secret now (Some s) (create_token secret T [(''sub'', JStr e)] None)
      = Inr [(''email'', JStr e), (''name'', dict_get u ''name''),
             (''role'', dict_get_default u ''role'' (JStr ''user''))]"
    by (simp add: subject)
qed (simp_all add: dict_get_def)

theorem token_roundtrip_subject_witness:
  "(60::int) < 0 + 60 * TOKEN_EXPIRE_MINUTES
 \<and> jwt_decode (create_token ''devsecret'' 0 [(''sub'', JStr ''a@x.com'')] None)
      ''devsecret'' [JWT_ALGO] 60
     = Inr [(''sub'', JStr ''a@x.com''), (''exp'', JInt (0 + 60 * TOKEN_EXPIRE_MINUTES))]
 \<and> (900::int) \<noteq> 0 \<and> (60::int) < 0 + 900
 \<and> jwt_decode (create_token ''devsecret'' 0 [(''sub'', JStr ''a@x.com'')] (Some 900))
      ''devsecret'' [JWT_ALGO] 60
     = Inr [(''sub'', JStr ''a@x.com''), (''exp'', JInt (0 + 900))]
 \<and> ''a@x.com'' \<noteq> []
 \<and> find_one demo_store ''user'' [(''email'', JStr ''a@x.com'')] = Some alice_doc
 \<and> get_current_user ''devsecret'' 60 (Some demo_store)
      (create_token ''devsecret'' 0 [(''sub'', JStr ''a@x.com'')] None)
     = Inr [(''email'', JStr ''a@x.com''), (''name'', dict_get alice_doc ''name''),
            (''role'', dict_get_default alice_doc ''role'' (JStr ''user''))]"
proof -
  have live: "(60::int) < 0 + 60 * TOKEN_EXPIRE_MINUTES"
    by (simp add: TOKEN_EXPIRE_MINUTES_def)
  have short: "(900::int) \<noteq> 0 \<and> (60::int) < 0 + 900"
    by simp
  have name: "''a@x.com'' \<noteq> []"
    by simp
  note found = demo_find_alice
  have c1: "jwt_decode (create_token ''devsecret'' 0 [(''sub'', JStr ''a@x.com'')] None)
      ''devsecret'' [JWT_ALGO] 60
      = Inr [(''sub'', JStr ''a@x.com''), (''exp'', JInt (0 + 60 * TOKEN_EXPIRE_MINUTES))]"
    by (rule token_roundtrip_subject [THEN conjunct1, THEN mp, THEN conjunct1]) (rule live)
  have c2: "jwt_decode (create_token ''devsecret'' 0 [(''sub'', JStr ''a@x.com'')] (Some 900))
      ''devsecret'' [JWT_ALGO] 60
      = Inr [(''sub'', JStr ''a@x.com''), (''exp'', JInt (0 + 900))]"
    by (rule token_roundtrip_subject [THEN conjunct2, THEN conjunct1, THEN mp, THEN conjunct1])
       (rule short)
  have c3: "get_current_user ''devsecret'' 60 (Some demo_store)
      (create_token ''devsecret'' 0 [(''sub'', JStr ''a@x.com'')] None)
      = Inr [(''email'', JStr ''a@x.com''), (''name'', dict_get alice_doc ''name''),
             (''role'', dict_get_default alice_doc ''role'' (JStr ''user''))]"
    by (rule token_roundtrip_subject [where T = 0, THEN conjunct2, THEN conjunct2, THEN mp])
       (intro conjI live name found)
  from live short name found c1 c2 c3 show ?thesis
    by (intro conjI) simp_all
qed



section \<open>Login and registration\<close>



lemma find_one_after_insert:
  assumes "map_of doc k = Some v"
  shows "\<exists>d. find_one (s(c := s c @ [doc])) c [(k, v)] = Some d \<and> d \<noteq> []"
proof -
  have "doc \<in> set ((s(c := s c @ [doc])) c)" and "matches [(k, v)] doc"
    using assms by (simp_all add: matches_single)
  then obtain d where "find_one (s(c := s c @ [doc])) c [(k, v)] = Some d"
    by (blast dest: find_one_exists)
  then show ?thesis
    by (auto dest: find_one_single_Some)
qed

text \<open>
  C6. Registering an email that is not yet in the \<^verbatim>\<open>user\<close> collection succeeds: it returns
  a bearer token for that email and appends the new user document. Registering the same
  email again on the resulting store, with any name and password at any later time, fails
  with 400 \<^verbatim>\<open>Email already registered\<close> and leaves that store as it is.
\<close>

theorem register_twice_conflict:
  assumes fresh: "find_one s ''user'' [(''email'', JStr email)] = None"
  shows "fst (register pwd_context secret now (Some s) name email password)
           = Inr (mk_Token (create_token secret now [(''sub'', JStr email)] None))
       \<and> snd (register pwd_context secret now (Some s) name email password)
           = Some (s(''user'' := s ''user'' @
                [User_dump \<lparr> User_name = name, User_email = email, User_phone = None,
                   User_password_hash = Some (hash_password pwd_context password),
                   User_role = ''user'', User_is_verified = False \<rparr>]))
       \<and> register pwd_context secret now'
            (snd (register pwd_context secret now (Some s) name email password))
            name' email password'
           = (Inl (HTTPException 400 ''Email already registered''),
              snd (register pwd_context secret now (Some s) name email password))"
proof -
  let ?doc = "User_dump \<lparr> User_name = name, User_email = email, User_phone = None,
                   User_password_hash = Some (hash_password pwd_context password),
                   User_role = ''user'', User_is_verified = False \<rparr>"
  let ?s' = "s(''user'' := s ''user'' @ [?doc])"
  from fresh have first:
    "register pwd_context secret now (Some s) name email password
       = (Inr (mk_Token (create_token secret now [(''sub'', JStr email)] None)), Some ?s')"
    by (simp add: register_def create_document_def)
  have "map_of ?doc ''email'' = Some (JStr email)"
    by (simp add: User_dump_def)
  then have "doc_truthy (find_one ?s' ''user'' [(''email'', JStr email)])"
    using find_one_after_insert [of ?doc "''email''" "JStr email" s "''user''"] by auto
  then have second:
    "register pwd_context secret now' (Some ?s') name' email password'
       = (Inl (HTTPException 400 ''Email already registered''), Some ?s')"
    by (simp add: register_def)
  from first second show ?thesis
    by simp
qed

theorem register_twice_conflict_witness:
  "find_one demo_store ''user'' [(''email'', JStr ''nobody@x.com'')] = None
 \<and> fst (register plain_context ''devsecret'' 60 (Some demo_store) ''N'' ''nobody@x.com'' ''pw'')
     = Inr (mk_Token (create_token ''devsecret'' 60 [(''sub'', JStr ''nobody@x.com'')] None))
 \<and> fst (register plain_context ''devsecret'' 61
      (snd (register plain_context ''devsecret'' 60 (Some demo_store) ''N'' ''nobody@x.com'' ''pw''))
      ''M'' ''nobody@x.com'' ''other'')
     = Inl (HTTPException 400 ''Email already registered'')"
proof -
  note twice = register_twice_conflict
    [OF demo_find_nobody, where pwd_context = plain_context and secret = "''devsecret''"
       and now = 60 and name = "''N''" and password = "''pw''" and now' = 61
       and name' = "''M''" and password' = "''other''"]
  have second: "fst (register plain_context ''devsecret'' 61
      (snd (register plain_context ''devsecret'' 60 (Some demo_store) ''N'' ''nobody@x.com'' ''pw''))
      ''M'' ''nobody@x.com'' ''other'')
     = Inl (HTTPException 400 ''Email already registered'')"
    by (simp only: twice [THEN conjunct2, THEN conjunct2] fst_conv)
  from demo_find_nobody twice [THEN conjunct1] second show ?thesis
    by (intro conjI)
qed

text \<open>
  C7. Password verification is meant to answer with a boolean for every password and hash,
  so that a login for a stored user without a usable password hash fails with
  \<^verbatim>\<open>Incorrect email or password\<close>. \<^verbatim>\<open>verify_password\<close> hands the call to the library context
  without a guard, and \<^verbatim>\<open>login\<close> passes the empty string when the user document has no
  \<^verbatim>\<open>password_hash\<close> field. passlib's \<^verbatim>\<open>CryptContext.verify\<close> raises \<^verbatim>\<open>UnknownHashError\<close> for
  a string that none of its schemes identifies, the empty string among them. In that case
  \<^verbatim>\<open>verify_password\<close> raises instead of returning, and the login leaves the handler as an
  unhandled exception, a 500 response, not the 400 of a failed login.
\<close>

theorem login_unidentified_hash_raises:
  assumes stored: "find_one s ''user'' [(''email'', JStr email)] = Some user"
    and no_hash: "map_of user ''password_hash'' = None"
    and library: "ctx_verify pwd_context password (JStr []) = Inl UnknownHashError"
  shows "verify_password pwd_context password (JStr []) = Inl UnknownHashError
       \<and> login pwd_context secret now (Some s) email password
           = (Inl (HTTPException 500 ''Internal Server Error''), Some s)
       \<and> fst (login pwd_context secret now (Some s) email password)
           \<noteq> Inl (HTTPException 400 ''Incorrect email or password'')"
proof -
  from stored have "user \<noteq> []"
    by (auto dest: find_one_single_Some)
  with assms show ?thesis
    by (simp add: login_def verify_password_def dict_get_default_def unhandled_def)
qed

theorem login_unidentified_hash_raises_witness:
  "find_one demo_store ''user'' [(''email'', JStr ''old@x.com'')] = Some legacy_doc
 \<and> map_of legacy_doc ''password_hash'' = None
 \<and> ctx_verify plain_context ''pw'' (JStr []) = Inl UnknownHashError
 \<and> login plain_context ''devsecret'' 60 (Some demo_store) ''old@x.com'' ''pw''
     = (Inl (HTTPException 500 ''Internal Server Error''), Some demo_store)"
proof -
  have no_hash: "map_of legacy_doc ''password_hash'' = None"
    by (simp add: legacy_doc_def)
  have library: "ctx_verify plain_context ''pw'' (JStr []) = Inl UnknownHashError"
    by (simp add: plain_context_def bcrypt_ident_def)
  note crash = login_unidentified_hash_raises [OF demo_find_legacy no_hash library]
  from demo_find_legacy no_hash library crash [THEN conjunct2, THEN conjunct1] show ?thesis
    by (intro conjI)
qed

section \<open>One-time codes\<close>

lemma otp_query_matches:
  "matches [(''target'', t), (''code'', c), (''purpose'', p)] d
     = (map_of d ''target'' = Some t \<and> map_of d ''code'' = Some c \<and> map_of d ''purpose'' = Some p)"
  by (simp add: matches_def)

lemma otp_verify_found:
  assumes "d \<in> set (s ''otprequest'')"
    and "map_of d ''target'' = Some (JStr (OTPVerify_target body))"
    and "map_of d ''code'' = Some (JStr (OTPVerify_code body))"
    and "map_of d ''purpose'' = Some (JStr (OTPVerify_purpose body))"
  shows "otp_verify (Some s) body = (Inr [(''verified'', JBool True)], Some s)"
proof -
  let ?q = "[(''target'', JStr (OTPVerify_target body)), (''code'', JStr (OTPVerify_code body)),
             (''purpose'', JStr (OTPVerify_purpose body))]"
  from assms have "matches ?q d"
    by (simp add: otp_query_matches)
  with assms(1) obtain d' where found: "find_one s ''otprequest'' ?q = Some d'" and "matches ?q d'"
    by (blast dest: find_one_exists)
  then have "d' \<noteq> []"
    by (auto simp: otp_query_matches)
  with found show ?thesis
    by (simp add: otp_verify_def)
qed

lemma otp_verify_not_found:
  assumes "\<forall>d \<in> set (s ''otprequest'').
             \<not> (map_of d ''target'' = Some (JStr (OTPVerify_target body))
                \<and> map_of d ''code'' = Some (JStr (OTPVerify_code body))
                \<and> map_of d ''purpose'' = Some (JStr (OTPVerify_purpose body)))"
  shows "otp_verify (Some s) body = (Inl (HTTPException 400 ''Invalid code''), Some s)"
proof -
  let ?q = "[(''target'', JStr (OTPVerify_target body)), (''code'', JStr (OTPVerify_code body)),
             (''purpose'', JStr (OTPVerify_purpose body))]"
  from assms have "find_one s ''otprequest'' ?q = None"
    by (simp add: find_one_None_iff otp_query_matches)
  then show ?thesis
    by (simp add: otp_verify_def)
qed


text \<open>
  C8. With the store configured, \<^verbatim>\<open>otp_verify\<close> fails with 400 \<^verbatim>\<open>Invalid code\<close> exactly when
  no document of the \<^verbatim>\<open>otprequest\<close> collection has the target, code and purpose of the
  request. When one has, it succeeds; in particular every stored request record with these
  three fields verifies, whatever its \<^verbatim>\<open>expires_at\<close> and \<^verbatim>\<open>verified\<close> fields hold (the handler
  does not read the clock). The store after the call is the store before it.
\<close>

theorem otp_verify_match_only:
  "((fst (otp_verify (Some s) body) = Inl (HTTPException 400 ''Invalid code''))
      = (\<not> (\<exists>d \<in> set (s ''otprequest'').
              map_of d ''target'' = Some (JStr (OTPVerify_target body))
            \<and> map_of d ''code'' = Some (JStr (OTPVerify_code body))
            \<and> map_of d ''purpose'' = Some (JStr (OTPVerify_purpose body)))))
 \<and> ((\<exists>d \<in> set (s ''otprequest'').
              map_of d ''target'' = Some (JStr (OTPVerify_target body))
            \<and> map_of d ''code'' = Some (JStr (OTPVerify_code body))
            \<and> map_of d ''purpose'' = Some (JStr (OTPVerify_purpose body))) \<longrightarrow>
      fst (otp_verify (Some s) body) = Inr [(''verified'', JBool True)])
 \<and> (OTPRequest_dump r \<in> set (s ''otprequest'')
      \<and> OTPRequest_target r = OTPVerify_target body
      \<and> OTPRequest_code r = OTPVerify_code body
      \<and> OTPRequest_purpose r = OTPVerify_purpose body \<longrightarrow>
      fst (otp_verify (Some s) body) = Inr [(''verified'', JBool True)])
 \<and> snd (otp_verify db body) = db"
proof (intro conjI impI)
  let ?hit = "\<exists>d \<in> set (s ''otprequest'').
              map_of d ''target'' = Some (JStr (OTPVerify_target body))
            \<and> map_of d ''code'' = Some (JStr (OTPVerify_code body))
            \<and> map_of d ''purpose'' = Some (JStr (OTPVerify_purpose body))"
  show "(fst (otp_verify (Some s) body) = Inl (HTTPException 400 ''Invalid code'')) = (\<not> ?hit)"
  proof (cases ?hit)
    case True
    then have "otp_verify (Some s) body = (Inr [(''verified'', JBool True)], Some s)"
      by (blast intro: otp_verify_found)
    with True show ?thesis by simp
  next
    case False
    then have "otp_verify (Some s) body = (Inl (HTTPException 400 ''Invalid code''), Some s)"
      by (intro otp_verify_not_found) blast
    with False show ?thesis by simp
  qed
  show "fst (otp_verify (Some s) body) = Inr [(''verified'', JBool True)]" if ?hit
  proof -
    from that have "otp_verify (Some s) body = (Inr [(''verified'', JBool True)], Some s)"
      by (blast intro: otp_verify_found)
    then show ?thesis by simp
  qed
  show "fst (otp_verify (Some s) body) = Inr [(''verified'', JBool True)]"
    if stored: "OTPRequest_dump r \<in> set (s ''otprequest'')
      \<and> OTPRequest_target r = OTPVerify_target body
      \<and> OTPRequest_code r = OTPVerify_code body
      \<and> OTPRequest_purpose r = OTPVerify_purpose body"
  proof -
    from stored have mem: "OTPRequest_dump r \<in> set (s ''otprequest'')"
      by simp
    from stored have "map_of (OTPRequest_dump r) ''target'' = Some (JStr (OTPVerify_target body))"
      and "map_of (OTPRequest_dump r) ''code'' = Some (JStr (OTPVerify_code body))"
      and "map_of (OTPRequest_dump r) ''purpose'' = Some (JStr (OTPVerify_purpose body))"
      by (simp_all add: OTPRequest_dump_def)
    with mem have "otp_verify (Some s) body = (Inr [(''verified'', JBool True)], Some s)"
      by (rule otp_verify_found)
    then show ?thesis by simp
  qed
  show "snd (otp_verify db body) = db"
    by (simp add: otp_verify_def Let_def split: option.splits)
qed


theorem otp_verify_match_only_witness:
  "OTPRequest_dump \<lparr> OTPRequest_channel = ''email'', OTPRequest_target = ''a@x.com'',
       OTPRequest_code = ''123456'', OTPRequest_purpose = ''login'',
       OTPRequest_expires_at = 600, OTPRequest_verified = False \<rparr>
     \<in> set (demo_store ''otprequest'')
 \<and> fst (otp_verify (Some demo_store)
      \<lparr> OTPVerify_target = ''a@x.com'', OTPVerify_code = ''123456'',
        OTPVerify_purpose = ''login'' \<rparr>)
     = Inr [(''verified'', JBool True)]
 \<and> fst (otp_verify (Some demo_store)
      \<lparr> OTPVerify_target = ''a@x.com'', OTPVerify_code = ''000000'',
        OTPVerify_purpose = ''login'' \<rparr>)
     = Inl (HTTPException 400 ''Invalid code'')"
proof -
  let ?r = "\<lparr> OTPRequest_channel = ''email'', OTPRequest_target = ''a@x.com'',
       OTPRequest_code = ''123456'', OTPRequest_purpose = ''login'',
       OTPRequest_expires_at = 600, OTPRequest_verified = False \<rparr>"
  let ?good = "\<lparr> OTPVerify_target = ''a@x.com'', OTPVerify_code = ''123456'',
        OTPVerify_purpose = ''login'' \<rparr>"
  let ?bad = "\<lparr> OTPVerify_target = ''a@x.com'', OTPVerify_code = ''000000'',
        OTPVerify_purpose = ''login'' \<rparr>"
  have mem: "OTPRequest_dump ?r \<in> set (demo_store ''otprequest'')"
    by (simp add: demo_store_def stale_otp_def)
  have c1: "fst (otp_verify (Some demo_store) ?good) = Inr [(''verified'', JBool True)]"
    by (rule otp_verify_match_only
          [where r = ?r, THEN conjunct2, THEN conjunct2, THEN conjunct1, THEN mp])
       (simp add: mem)
  have none: "\<not> (\<exists>d \<in> set (demo_store ''otprequest'').
              map_of d ''target'' = Some (JStr (OTPVerify_target ?bad))
            \<and> map_of d ''code'' = Some (JStr (OTPVerify_code ?bad))
            \<and> map_of d ''purpose'' = Some (JStr (OTPVerify_purpose ?bad)))"
    by (simp add: demo_store_def stale_otp_def OTPRequest_dump_def)
  have c2: "fst (otp_verify (Some demo_store) ?bad) = Inl (HTTPException 400 ''Invalid code'')"
    by (rule iffD2 [OF otp_verify_match_only [THEN conjunct1]]) (rule none)
  from mem c1 c2 show ?thesis
    by (intro conjI)
qed

section \<open>The store is not configured\<close>

lemma authenticate_unconfigured:
  "\<exists>e. authenticate secret now None auth = Inl e"
  by (cases auth)
     (auto simp: authenticate_def get_current_user_def get_current_user_try_def Let_def
           split: sum.splits py_exception.splits)


text \<open>
  C9, as the spec states it, fails on the two public listings: with no store configured,
  \<^verbatim>\<open>GET /packages\<close> and \<^verbatim>\<open>GET /blog\<close> return the empty list as a normal response, not the
  500 error \<^verbatim>\<open>Database not configured\<close>.
\<close>

theorem unconfigured_listing_counterexample:
  "fst (list_packages refuse None) = Inr []
 \<and> fst (list_packages refuse None) \<noteq> Inl (HTTPException 500 ''Database not configured'')
 \<and> fst (list_posts refuse None) = Inr []
 \<and> fst (list_posts refuse None) \<noteq> Inl (HTTPException 500 ''Database not configured'')"
  by (simp add: list_packages_def list_posts_def)

text \<open>
  C9, amended. With no store configured: register, login, OTP start, OTP verify, create lead
  and create appointment raise 500 with the fixed message \<^verbatim>\<open>Database not configured\<close>; the
  two public listings return the empty list, whatever the validator; and on the four admin
  routes the auth dependency, which finds no user without a store, rejects every request
  with a 401 that the route returns.
\<close>

theorem unconfigured_store_outcomes:
  "register pwd_context secret now None name email password
     = (Inl (HTTPException 500 ''Database not configured''), None)
 \<and> login pwd_context secret now None username password
     = (Inl (HTTPException 500 ''Database not configured''), None)
 \<and> otp_start now None start = (Inl (HTTPException 500 ''Database not configured''), None)
 \<and> otp_verify None verify = (Inl (HTTPException 500 ''Database not configured''), None)
 \<and> create_lead None lead = (Inl (HTTPException 500 ''Database not configured''), None)
 \<and> create_appointment None appt = (Inl (HTTPException 500 ''Database not configured''), None)
 \<and> list_packages parse_package None = (Inr [], None)
 \<and> list_posts parse_post None = (Inr [], None)
 \<and> (\<exists>e. authenticate secret now None auth = Inl e \<and> status_code e = 401
        \<and> POST_packages secret now None auth pkg = (Inl e, None)
        \<and> POST_blog secret now None auth post = (Inl e, None)
        \<and> GET_admin_leads secret now None auth = (Inl e, None)
        \<and> GET_admin_appointments secret now None auth = (Inl e, None))"
proof (intro conjI)
  obtain e where rejected: "authenticate secret now None auth = Inl e"
    using authenticate_unconfigured by blast
  then have "status_code e = 401"
    by (rule authenticate_unauthorized)
  with rejected
  show "\<exists>e. authenticate secret now None auth = Inl e \<and> status_code e = 401
        \<and> POST_packages secret now None auth pkg = (Inl e, None)
        \<and> POST_blog secret now None auth post = (Inl e, None)
        \<and> GET_admin_leads secret now None auth = (Inl e, None)
        \<and> GET_admin_appointments secret now None auth = (Inl e, None)"
    by (simp add: POST_packages_def POST_blog_def GET_admin_leads_def
          GET_admin_appointments_def protected_def)
qed (simp_all add: register_def login_def otp_start_def otp_verify_def create_lead_def
       create_appointment_def list_packages_def list_posts_def db_not_configured_def)


section \<open>A user document without a role\<close>

text \<open>
  C10. When the token verifies and the user document found for its subject has no
  \<^verbatim>\<open>role\<close> field, \<^verbatim>\<open>get_current_user\<close> resolves the identity with the role \<^verbatim>\<open>user\<close>, and
  each of the four admin routes answers that request with 403 Forbidden, leaving the store
  as it was.
\<close>

theorem missing_role_fails_closed:
  assumes decoded: "jwt_decode tok secret [JWT_ALGO] now = Inr payload"
    and subject: "truthy (dict_get payload ''sub'')"
    and stored: "find_one s ''user'' [(''email'', dict_get payload ''sub'')] = Some user"
    and no_role: "map_of user ''role'' = None"
  shows "get_current_user secret now (Some s) tok
           = Inr [(''email'', dict_get payload ''sub''), (''name'', dict_get user ''name''),
                  (''role'', JStr ''user'')]
       \<and> POST_packages secret now (Some s) (Bearer tok) pkg
           = (Inl (HTTPException 403 ''Forbidden''), Some s)
       \<and> POST_blog secret now (Some s) (Bearer tok) post
           = (Inl (HTTPException 403 ''Forbidden''), Some s)
       \<and> GET_admin_leads secret now (Some s) (Bearer tok)
           = (Inl (HTTPException 403 ''Forbidden''), Some s)
       \<and> GET_admin_appointments secret now (Some s) (Bearer tok)
           = (Inl (HTTPException 403 ''Forbidden''), Some s)"
proof -
  let ?identity = "[(''email'', dict_get payload ''sub''), (''name'', dict_get user ''name''),
                    (''role'', JStr ''user'')]"
  from no_role have "dict_get_default user ''role'' (JStr ''user'') = JStr ''user''"
    by (simp add: dict_get_default_def)
  with get_current_user_resolved [OF decoded subject stored]
  have resolved: "get_current_user secret now (Some s) tok = Inr ?identity"
    by simp
  have gate: "dict_get ?identity ''role'' \<noteq> JStr ''admin''"
    by (simp add: dict_get_def)
  from resolved gate show ?thesis
    by (simp add: POST_packages_def POST_blog_def GET_admin_leads_def
          GET_admin_appointments_def protected_def authenticate_def create_package_def
          create_post_def admin_leads_def admin_appointments_def forbidden_def)
qed

theorem missing_role_fails_closed_witness:
  "jwt_decode (create_token ''devsecret'' 0 [(''sub'', JStr ''old@x.com'')] None)
      ''devsecret'' [JWT_ALGO] 60
     = Inr [(''sub'', JStr ''old@x.com''), (''exp'', JInt 86400)]
 \<and> truthy (dict_get [(''sub'', JStr ''old@x.com''), (''exp'', JInt 86400)] ''sub'')
 \<and> find_one demo_store ''user''
      [(''email'', dict_get [(''sub'', JStr ''old@x.com''), (''exp'', JInt 86400)] ''sub'')]
     = Some legacy_doc
 \<and> map_of legacy_doc ''role'' = None
 \<and> get_current_user ''devsecret'' 60 (Some demo_store)
      (create_token ''devsecret'' 0 [(''sub'', JStr ''old@x.com'')] None)
     = Inr [(''email'', dict_get [(''sub'', JStr ''old@x.com''), (''exp'', JInt 86400)] ''sub''),
            (''name'', dict_get legacy_doc ''name''), (''role'', JStr ''user'')]
 \<and> GET_admin_leads ''devsecret'' 60 (Some demo_store)
      (Bearer (create_token ''devsecret'' 0 [(''sub'', JStr ''old@x.com'')] None))
     = (Inl (HTTPException 403 ''Forbidden''), Some demo_store)"
proof -
  let ?payload = "[(''sub'', JStr ''old@x.com''), (''exp'', JInt 86400)]"
  have decoded: "jwt_decode (create_token ''devsecret'' 0 [(''sub'', JStr ''old@x.com'')] None)
      ''devsecret'' [JWT_ALGO] 60 = Inr ?payload"
    by (simp add: decode_create_token)
  have subject: "truthy (dict_get ?payload ''sub'')"
    by (simp add: dict_get_def)
  have stored: "find_one demo_store ''user'' [(''email'', dict_get ?payload ''sub'')]
      = Some legacy_doc"
    by (simp add: dict_get_def demo_find_legacy)
  have no_role: "map_of legacy_doc ''role'' = None"
    by (simp add: legacy_doc_def)
  note closed = missing_role_fails_closed
    [OF decoded subject stored no_role, where pkg = demo_package and post = demo_post]
  from decoded subject stored no_role closed [THEN conjunct1]
    closed [THEN conjunct2, THEN conjunct2, THEN conjunct2, THEN conjunct1]
  show ?thesis
    by (intro conjI)
qed

end
